theory Spec2Isabelle
  imports Main
begin

section \<open>Thrown values and application errors\<close>

text \<open>
  A value caught by a \<^verbatim>\<open>catch (error: any)\<close> clause. The source reads
  \<^verbatim>\<open>error?.message\<close>, \<^verbatim>\<open>error?.code\<close>, \<^verbatim>\<open>error?.name\<close> and \<^verbatim>\<open>String(error)\<close>;
  a property that is \<^verbatim>\<open>undefined\<close> is \<open>None\<close>. The properties are strings, as
  they are on the errors of the queue client and of the database client.
\<close>

record js_error =
  err_message :: "string option"
  err_code :: "string option"
  err_name :: "string option"
  err_string :: string

text \<open>The error classes of \<^verbatim>\<open>utils/errors\<close> used by the notification module, and a
  foreign error that passes through uncaught.\<close>

datatype app_error =
    ConflictError string
  | NotFoundError string
  | ValidationError string
  | Thrown js_error

text \<open>\<^verbatim>\<open>new Error(msg)\<close>.\<close>

definition new_Error :: "string \<Rightarrow> js_error" where
  "new_Error msg =
     \<lparr>err_message = Some msg, err_code = None, err_name = Some ''Error'',
      err_string = ''Error: '' @ msg\<rparr>"

text \<open>Truthiness of an optional string: \<^verbatim>\<open>undefined\<close> and \<^verbatim>\<open>''\<close> are falsy.\<close>

definition truthy_str :: "string option \<Rightarrow> bool" where
  "truthy_str s = (case s of None \<Rightarrow> False | Some v \<Rightarrow> v \<noteq> [])"

text \<open>\<^verbatim>\<open>a || b\<close> on an optional string and a string.\<close>

definition or_str :: "string option \<Rightarrow> string \<Rightarrow> string" where
  "or_str a b = (case a of None \<Rightarrow> b | Some v \<Rightarrow> if v \<noteq> [] then v else b)"

text \<open>\<^verbatim>\<open>toLowerCase\<close> on the ASCII letters; other bytes are kept.\<close>

definition lower_char :: "char \<Rightarrow> char" where
  "lower_char c =
     (if (65::nat) \<le> of_char c \<and> of_char c \<le> (90::nat)
      then char_of (of_char c + (32::nat)) else c)"

definition toLowerCase :: "string \<Rightarrow> string" where
  "toLowerCase s = map lower_char s"

text \<open>\<^verbatim>\<open>hay.includes(needle)\<close>.\<close>

fun startsWith :: "string \<Rightarrow> string \<Rightarrow> bool" where
  "startsWith hay [] = True"
| "startsWith [] (n # ns) = False"
| "startsWith (h # hs) (n # ns) = (h = n \<and> startsWith hs ns)"

fun includes_str :: "string \<Rightarrow> string \<Rightarrow> bool" where
  "includes_str [] needle = (needle = [])"
| "includes_str (h # hs) needle = (startsWith (h # hs) needle \<or> includes_str hs needle)"

text \<open>Decimal rendering of a number inside a template string.\<close>

fun string_of_nat :: "nat \<Rightarrow> string" where
  "string_of_nat n =
     (if n < 10 then [char_of (48 + n)]
      else string_of_nat (n div 10) @ [char_of (48 + n mod 10)])"

declare string_of_nat.simps [simp del]

section \<open>The directory and the device token store\<close>

text \<open>
  The rows the notification module reads through the database client, each with the
  columns and joined relations its queries name: \<^verbatim>\<open>user.role.name\<close>,
  \<^verbatim>\<open>teacherClass.teacher.userId\<close>, \<^verbatim>\<open>student.parent?.userId\<close>.
\<close>

record user_row =
  user_id :: string
  user_isActive :: bool
  user_role_name :: string

record teacherClass_row =
  tc_classId :: string
  tc_teacher_userId :: string

record student_row =
  st_classId :: string
  st_isActive :: bool
  st_parent_userId :: "string option"

datatype platform = IOS | ANDROID | WEB

record deviceToken_row =
  dt_userId :: string
  dt_token :: string
  dt_platform :: platform
  dt_isActive :: bool
  dt_lastUsedAt :: "int option"

text \<open>
  The database behind the client. \<open>db_fault\<close> is the error every query rejects with
  while the database is unreachable.
\<close>

record database =
  users :: "user_row list"
  teacherClasses :: "teacherClass_row list"
  students :: "student_row list"
  deviceTokens :: "deviceToken_row list"
  db_fault :: "js_error option"

text \<open>\<^verbatim>\<open>prisma.<table>.findMany({ where })\<close>.\<close>

definition findMany :: "database \<Rightarrow> 'r list \<Rightarrow> ('r \<Rightarrow> bool) \<Rightarrow> js_error + 'r list" where
  "findMany db table wh =
     (case db_fault db of Some e \<Rightarrow> Inl e | None \<Rightarrow> Inr (filter wh table))"

section \<open>Request bodies\<close>

record recipients_filter =
  userIds :: "string list option"
  roles :: "string list option"
  classIds :: "string list option"

record SendNotificationInput =
  title :: string
  message :: string
  recipients :: recipients_filter
  data :: "(string \<times> string) list option"

record RegisterDeviceInput =
  userId :: string
  deviceToken :: string
  platform :: platform

record NotificationJobData =
  job_title :: string
  job_message :: string
  job_data :: "(string \<times> string) list option"
  recipientUserIds :: "string list"
  initiatedBy :: string

section \<open>Recipient resolution\<close>

text \<open>\<^verbatim>\<open>userIds.add(x)\<close> on a \<^verbatim>\<open>Set<string>\<close>, kept in insertion order as
  \<^verbatim>\<open>Array.from\<close> reads it.\<close>

definition set_add :: "string list \<Rightarrow> string \<Rightarrow> string list" where
  "set_add s x = (if x \<in> set s then s else s @ [x])"

definition add_all :: "string list \<Rightarrow> string list \<Rightarrow> string list" where
  "add_all s xs = foldl set_add s xs"

text \<open>The block guarded by \<^verbatim>\<open>recipients.userIds && recipients.userIds.length > 0\<close>.\<close>

definition resolve_by_userIds ::
  "database \<Rightarrow> recipients_filter \<Rightarrow> string list \<Rightarrow> js_error + string list" where
  "resolve_by_userIds db r s =
     (case userIds r of
        None \<Rightarrow> Inr s
      | Some ids \<Rightarrow>
          if ids = [] then Inr s
          else (case findMany db (users db) (\<lambda>u. user_id u \<in> set ids) of
                  Inl e \<Rightarrow> Inl e
                | Inr us \<Rightarrow> Inr (add_all s (map user_id us))))"

text \<open>The block guarded by \<^verbatim>\<open>recipients.roles && recipients.roles.length > 0\<close>.\<close>

definition resolve_by_roles ::
  "database \<Rightarrow> recipients_filter \<Rightarrow> string list \<Rightarrow> js_error + string list" where
  "resolve_by_roles db r s =
     (case roles r of
        None \<Rightarrow> Inr s
      | Some rs \<Rightarrow>
          if rs = [] then Inr s
          else (case findMany db (users db) (\<lambda>u. user_role_name u \<in> set rs) of
                  Inl e \<Rightarrow> Inl e
                | Inr us \<Rightarrow> Inr (add_all s (map user_id us))))"

text \<open>The block guarded by \<^verbatim>\<open>recipients.classIds && recipients.classIds.length > 0\<close>:
  teachers assigned to the classes, then parents of students in the classes.\<close>

definition resolve_by_classIds ::
  "database \<Rightarrow> recipients_filter \<Rightarrow> string list \<Rightarrow> js_error + string list" where
  "resolve_by_classIds db r s =
     (case classIds r of
        None \<Rightarrow> Inr s
      | Some cs \<Rightarrow>
          if cs = [] then Inr s
          else (case findMany db (teacherClasses db) (\<lambda>t. tc_classId t \<in> set cs) of
                  Inl e \<Rightarrow> Inl e
                | Inr teachers \<Rightarrow>
                    (case findMany db (students db) (\<lambda>p. st_classId p \<in> set cs) of
                       Inl e \<Rightarrow> Inl e
                     | Inr parents \<Rightarrow>
                         Inr (add_all (add_all s (map tc_teacher_userId teachers))
                                (concat (map (\<lambda>p. case st_parent_userId p of
                                                     None \<Rightarrow> [] | Some u \<Rightarrow> [u]) parents))))))"

definition resolveRecipientUserIds ::
  "database \<Rightarrow> SendNotificationInput \<Rightarrow> js_error + string list" where
  "resolveRecipientUserIds db payload =
     (case resolve_by_userIds db (recipients payload) [] of
        Inl e \<Rightarrow> Inl e
      | Inr s1 \<Rightarrow>
          (case resolve_by_roles db (recipients payload) s1 of
             Inl e \<Rightarrow> Inl e
           | Inr s2 \<Rightarrow> resolve_by_classIds db (recipients payload) s2))"

section \<open>Device registration\<close>

text \<open>
  \<^verbatim>\<open>prisma.deviceToken.upsert\<close> on the compound unique key \<^verbatim>\<open>userId_token\<close>. The
  update branch writes \<^verbatim>\<open>platform\<close>, \<^verbatim>\<open>isActive\<close> and \<^verbatim>\<open>lastUsedAt\<close>; the create
  branch names no \<^verbatim>\<open>lastUsedAt\<close>, so the new row gets the column's default, which the
  table declaration fixes: \<open>column_default\<close> is that default at the time of the insert
  (\<open>None\<close> for a column left null).
\<close>

definition has_key :: "string \<Rightarrow> string \<Rightarrow> deviceToken_row \<Rightarrow> bool" where
  "has_key u t r = (dt_userId r = u \<and> dt_token r = t)"

definition upsert_deviceToken ::
  "(int \<Rightarrow> int option) \<Rightarrow> int \<Rightarrow> database \<Rightarrow> string \<Rightarrow> string \<Rightarrow> platform
     \<Rightarrow> (js_error + deviceToken_row) \<times> database" where
  "upsert_deviceToken column_default now db u t p =
     (case db_fault db of
        Some e \<Rightarrow> (Inl e, db)
      | None \<Rightarrow>
          (case filter (has_key u t) (deviceTokens db) of
             found # _ \<Rightarrow>
               (let upd = (\<lambda>r. r\<lparr>dt_platform := p, dt_isActive := True,
                                  dt_lastUsedAt := Some now\<rparr>)
                in (Inr (upd found),
                    db\<lparr>deviceTokens :=
                         map (\<lambda>r. if has_key u t r then upd r else r) (deviceTokens db)\<rparr>))
           | [] \<Rightarrow>
               (let row = \<lparr>dt_userId = u, dt_token = t, dt_platform = p, dt_isActive = True,
                           dt_lastUsedAt = column_default now\<rparr>
                in (Inr row, db\<lparr>deviceTokens := deviceTokens db @ [row]\<rparr>))))"

text \<open>\<^verbatim>\<open>registerDevice(input, requesterUserId)\<close>, with the clock reading of
  \<^verbatim>\<open>new Date()\<close>. It returns what the call returns or throws, and the database after it.\<close>

definition registerDevice ::
  "(int \<Rightarrow> int option) \<Rightarrow> int \<Rightarrow> database \<Rightarrow> RegisterDeviceInput \<Rightarrow> string
     \<Rightarrow> (app_error + deviceToken_row) \<times> database" where
  "registerDevice column_default now db input requesterUserId =
     (if userId input \<noteq> requesterUserId
      then (Inl (ConflictError ''User ID does not match authenticated user''), db)
      else (case upsert_deviceToken column_default now db
                   (userId input) (deviceToken input) (platform input) of
              (Inl e, db') \<Rightarrow> (Inl (Thrown e), db')
            | (Inr row, db') \<Rightarrow> (Inr row, db')))"

section \<open>Enqueueing\<close>

record enqueue_result =
  queued :: bool
  recipientCount :: nat
  warning :: "string option"

text \<open>
  The value caught around \<^verbatim>\<open>notificationQueue.add\<close>. The clause is
  \<^verbatim>\<open>catch (error: any)\<close>, so the properties the block reads may hold a value of any
  primitive type (numbers as integers). \<open>tv_string\<close> is \<^verbatim>\<open>String(error)\<close>, and \<open>None\<close>
  when that conversion itself throws.
\<close>

datatype js_value = JUndefined | JNull | JBool bool | JNum int | JStr string

record thrown_value =
  tv_message :: js_value
  tv_code :: js_value
  tv_name :: js_value
  tv_stack :: js_value
  tv_string :: "string option"

text \<open>Truthiness of a value, and \<^verbatim>\<open>a || b\<close>.\<close>

definition truthy :: "js_value \<Rightarrow> bool" where
  "truthy v =
     (case v of
        JUndefined \<Rightarrow> False
      | JNull \<Rightarrow> False
      | JBool b \<Rightarrow> b
      | JNum n \<Rightarrow> n \<noteq> 0
      | JStr s \<Rightarrow> s \<noteq> [])"

definition or_value :: "js_value \<Rightarrow> js_value \<Rightarrow> js_value" where
  "or_value a b = (if truthy a then a else b)"

text \<open>A value inside a template string.\<close>

definition template_string :: "js_value \<Rightarrow> string" where
  "template_string v =
     (case v of
        JUndefined \<Rightarrow> ''undefined''
      | JNull \<Rightarrow> ''null''
      | JBool b \<Rightarrow> (if b then ''true'' else ''false'')
      | JNum n \<Rightarrow> (if n < 0 then ''-'' @ string_of_nat (nat (- n)) else string_of_nat (nat n))
      | JStr s \<Rightarrow> s)"

text \<open>The \<^verbatim>\<open>TypeError\<close> the runtime throws when a method is called on a value that has
  none, or when a value has no string conversion. The message texts are the runtime's.\<close>

definition new_TypeError :: "string \<Rightarrow> js_error" where
  "new_TypeError msg =
     \<lparr>err_message = Some msg, err_code = None, err_name = Some ''TypeError'',
      err_string = ''TypeError: '' @ msg\<rparr>"

text \<open>\<^verbatim>\<open>error?.stack?.substring(0, 500)\<close>, evaluated for the logged error details:
  \<^verbatim>\<open>?.\<close> stops at \<^verbatim>\<open>undefined\<close> and \<^verbatim>\<open>null\<close> only.\<close>

definition stack_excerpt :: "thrown_value \<Rightarrow> js_error + js_value" where
  "stack_excerpt error =
     (case tv_stack error of
        JUndefined \<Rightarrow> Inr JUndefined
      | JNull \<Rightarrow> Inr JUndefined
      | JStr s \<Rightarrow> Inr (JStr (take 500 s))
      | JBool b \<Rightarrow> Inl (new_TypeError ''error?.stack?.substring is not a function'')
      | JNum n \<Rightarrow> Inl (new_TypeError ''error?.stack?.substring is not a function''))"

text \<open>\<^verbatim>\<open>String(error)\<close>.\<close>

definition String_of :: "thrown_value \<Rightarrow> js_error + string" where
  "String_of error =
     (case tv_string error of
        None \<Rightarrow> Inl (new_TypeError ''Cannot convert object to primitive value'')
      | Some s \<Rightarrow> Inr s)"

text \<open>\<^verbatim>\<open>error?.message || String(error)\<close>.\<close>

definition message_or_string :: "thrown_value \<Rightarrow> js_error + js_value" where
  "message_or_string error =
     (if truthy (tv_message error) then Inr (tv_message error)
      else (case String_of error of Inl t \<Rightarrow> Inl t | Inr s \<Rightarrow> Inr (JStr s)))"

text \<open>\<^verbatim>\<open>v.toLowerCase()\<close>: only a string has the method.\<close>

definition toLowerCase_value :: "js_value \<Rightarrow> js_error + string" where
  "toLowerCase_value v =
     (case v of
        JStr s \<Rightarrow> Inr (toLowerCase s)
      | JUndefined \<Rightarrow> Inl (new_TypeError ''toLowerCase is not a function'')
      | JNull \<Rightarrow> Inl (new_TypeError ''toLowerCase is not a function'')
      | JBool b \<Rightarrow> Inl (new_TypeError ''toLowerCase is not a function'')
      | JNum n \<Rightarrow> Inl (new_TypeError ''toLowerCase is not a function''))"

text \<open>The classification \<^verbatim>\<open>isRedisError\<close>, over the four locals computed before it.\<close>

definition isRedisError :: "string \<Rightarrow> js_value \<Rightarrow> js_value \<Rightarrow> string \<Rightarrow> bool" where
  "isRedisError errorMessage errorCode errorName errorString =
     (includes_str errorMessage ''econnrefused'' \<or>
      includes_str errorMessage ''redis'' \<or>
      includes_str errorMessage ''connection'' \<or>
      includes_str errorMessage ''connect econnrefused'' \<or>
      includes_str errorMessage ''connect'' \<or>
      errorCode = JStr ''ECONNREFUSED'' \<or>
      errorCode = JStr ''ENOTFOUND'' \<or>
      errorCode = JStr ''ETIMEDOUT'' \<or>
      errorCode = JStr ''ECONNRESET'' \<or>
      errorName = JStr ''Error'' \<or>
      includes_str errorString ''redis'' \<or>
      includes_str errorString ''connection'')"

text \<open>
  The body of the \<^verbatim>\<open>catch\<close> clause around \<^verbatim>\<open>notificationQueue.add\<close>, statement by
  statement: the logged details with the stack excerpt, \<^verbatim>\<open>errorMessage\<close>,
  \<^verbatim>\<open>errorCode\<close>, \<^verbatim>\<open>errorName\<close>, \<^verbatim>\<open>errorString\<close>, the classification, and one of the
  two returns. \<open>n\<close> is \<^verbatim>\<open>recipientUserIds.length\<close>. An exception of one of these
  statements leaves the function.
\<close>

definition catch_add_error :: "thrown_value \<Rightarrow> nat \<Rightarrow> app_error + enqueue_result" where
  "catch_add_error error n =
     (case stack_excerpt error of
        Inl t \<Rightarrow> Inl (Thrown t)
      | Inr excerpt \<Rightarrow>
          (case message_or_string error of
             Inl t \<Rightarrow> Inl (Thrown t)
           | Inr m \<Rightarrow>
               (case toLowerCase_value (or_value m (JStr [])) of
                  Inl t \<Rightarrow> Inl (Thrown t)
                | Inr errorMessage \<Rightarrow>
                    (let errorCode = or_value (tv_code error) (JStr []);
                         errorName = or_value (tv_name error) (JStr [])
                     in case String_of error of
                          Inl t \<Rightarrow> Inl (Thrown t)
                        | Inr s \<Rightarrow>
                            (let errorString = toLowerCase s
                             in if isRedisError errorMessage errorCode errorName errorString
                                then Inr \<lparr>queued = False, recipientCount = n,
                                          warning = Some ''Notification queue unavailable. Please ensure Redis is running on localhost:6379. Notification was not sent.''\<rparr>
                                else Inr \<lparr>queued = False, recipientCount = n,
                                          warning = Some (''Notification queue error: ''
                                            @ template_string m
                                            @ ''. Please check Redis connection.'')\<rparr>)))))"

text \<open>
  \<^verbatim>\<open>enqueueNotification(input, initiatedBy)\<close>. \<open>add\<close> is \<^verbatim>\<open>notificationQueue.add\<close>:
  it resolves with the id of the new job or rejects with some value.
\<close>

definition enqueueNotification ::
  "database \<Rightarrow> (NotificationJobData \<Rightarrow> thrown_value + string) \<Rightarrow> SendNotificationInput \<Rightarrow> string
     \<Rightarrow> app_error + enqueue_result" where
  "enqueueNotification db add input initiator =
     (case resolveRecipientUserIds db input of
        Inl error \<Rightarrow>
          Inl (NotFoundError (''Failed to resolve recipients: ''
                 @ or_str (err_message error) (err_string error)))
      | Inr ids \<Rightarrow>
          if length ids = 0
          then Inl (NotFoundError ''No recipients found for the provided criteria'')
          else
            (let jobData = \<lparr>job_title = title input, job_message = message input,
                            job_data = data input, recipientUserIds = ids, initiatedBy = initiator\<rparr>
             in case add jobData of
                  Inr job \<Rightarrow> Inr \<lparr>queued = True, recipientCount = length ids, warning = None\<rparr>
                | Inl error \<Rightarrow> catch_add_error error (length ids)))"


section \<open>Job history\<close>

text \<open>A job as the queue hands it back: \<^verbatim>\<open>finishedOn\<close> and \<^verbatim>\<open>failedReason\<close> are
  \<^verbatim>\<open>undefined\<close> until the queue sets them.\<close>

record bull_job =
  job_id :: string
  job_payload :: NotificationJobData
  job_timestamp :: int
  job_finishedOn :: "int option"
  job_failedReason :: "string option"

record notification_item =
  item_id :: string
  item_state :: string
  item_failedReason :: "string option"
  item_title :: string
  item_message :: string
  item_recipientUserIds :: "string list"
  item_initiatedBy :: string
  item_timestamp :: int
  item_finishedOn :: "int option"

text \<open>Truthiness of an optional number: \<^verbatim>\<open>undefined\<close> and \<^verbatim>\<open>0\<close> are falsy.\<close>

definition truthy_num :: "int option \<Rightarrow> bool" where
  "truthy_num n = (case n of None \<Rightarrow> False | Some v \<Rightarrow> v \<noteq> 0)"

text \<open>The body of \<^verbatim>\<open>jobs.map((job) => ...)\<close>.\<close>

definition job_item :: "bull_job \<Rightarrow> notification_item" where
  "job_item job =
     \<lparr>item_id = job_id job,
      item_state = (if truthy_num (job_finishedOn job) then ''completed'' else ''failed''),
      item_failedReason = (if truthy_str (job_failedReason job) then job_failedReason job else None),
      item_title = job_title (job_payload job),
      item_message = job_message (job_payload job),
      item_recipientUserIds = recipientUserIds (job_payload job),
      item_initiatedBy = initiatedBy (job_payload job),
      item_timestamp = job_timestamp job,
      item_finishedOn = job_finishedOn job\<rparr>"

text \<open>
  \<^verbatim>\<open>listNotifications(requesterRole, requesterUserId, query)\<close>. \<open>getJobs\<close> is
  \<^verbatim>\<open>notificationQueue.getJobs(types, start, end, asc)\<close>; \<open>limit\<close> is \<^verbatim>\<open>query.limit\<close>.
\<close>

text \<open>\<^verbatim>\<open>query.limit || 50\<close>.\<close>

definition effective_limit :: "int option \<Rightarrow> int" where
  "effective_limit limit = (case limit of None \<Rightarrow> 50 | Some n \<Rightarrow> if n \<noteq> 0 then n else 50)"

definition listNotifications ::
  "(string list \<Rightarrow> int \<Rightarrow> int \<Rightarrow> bool \<Rightarrow> js_error + bull_job list)
     \<Rightarrow> string \<Rightarrow> string \<Rightarrow> int option \<Rightarrow> js_error + notification_item list" where
  "listNotifications getJobs requesterRole requesterUserId limit =
     (let lim = effective_limit limit
      in case getJobs [''completed'', ''failed''] 0 (lim - 1) False of
           Inl e \<Rightarrow> Inl e
         | Inr jobs \<Rightarrow>
             (let items = map job_item jobs
              in if requesterRole = ''SCHOOL_ADMIN'' then Inr items
                 else Inr (filter (\<lambda>item. requesterUserId \<in> set (item_recipientUserIds item))
                             items)))"

section \<open>The delivery worker\<close>

text \<open>\<^verbatim>\<open>getDeviceTokensForUsers(userIds)\<close>.\<close>

definition getDeviceTokensForUsers ::
  "database \<Rightarrow> string list \<Rightarrow> js_error + deviceToken_row list" where
  "getDeviceTokensForUsers db uids =
     findMany db (deviceTokens db) (\<lambda>t. dt_userId t \<in> set uids \<and> dt_isActive t = True)"

text \<open>
  The push gateways. The configuration values come from the environment
  (\<^verbatim>\<open>getOneSignalConfig\<close>, \<^verbatim>\<open>getFcmConfig\<close>); \<open>createNotification\<close> is the OneSignal
  client's call, which resolves (\<open>None\<close>) or rejects with an error; \<open>fetch\<close> is the HTTP
  call to FCM, which rejects or resolves with a response.
\<close>

record os_request =
  os_contents :: string
  os_headings :: string
  os_include_player_ids :: "string list"
  os_data :: "(string \<times> string) list option"

record fcm_request =
  fcm_url :: string
  fcm_authorization :: string
  fcm_registration_ids :: "string list"
  fcm_notification_title :: string
  fcm_notification_body :: string
  fcm_data :: "(string \<times> string) list option"

record http_response =
  res_ok :: bool
  res_status :: nat
  res_text :: string

record gateways =
  oneSignalAppId :: "string option"
  oneSignalRestApiKey :: "string option"
  fcmServerKey :: "string option"
  createNotification :: "os_request \<Rightarrow> js_error option"
  fetch :: "fcm_request \<Rightarrow> js_error + http_response"

record provider_result =
  provider :: string
  success :: bool
  reason :: "string option"

text \<open>A request that went out to a gateway.\<close>

datatype gateway_call = OneSignalCall os_request | FcmCall fcm_request

text \<open>\<^verbatim>\<open>sendViaOneSignal(data, tokens)\<close>: what it returns or throws, and the calls it made.\<close>

definition sendViaOneSignal ::
  "gateways \<Rightarrow> NotificationJobData \<Rightarrow> string list
     \<Rightarrow> (js_error + provider_result) \<times> gateway_call list" where
  "sendViaOneSignal g d tokens =
     (if \<not> truthy_str (oneSignalAppId g) \<or> \<not> truthy_str (oneSignalRestApiKey g)
      then (Inr \<lparr>provider = ''onesignal'', success = False, reason = Some ''Not configured''\<rparr>, [])
      else
        (let req = \<lparr>os_contents = job_message d, os_headings = job_title d,
                    os_include_player_ids = tokens, os_data = job_data d\<rparr>
         in case createNotification g req of
              Some e \<Rightarrow> (Inl e, [OneSignalCall req])
            | None \<Rightarrow>
                (Inr \<lparr>provider = ''onesignal'', success = True, reason = None\<rparr>,
                 [OneSignalCall req])))"

text \<open>\<^verbatim>\<open>sendViaFcm(data, tokens)\<close>.\<close>

definition sendViaFcm ::
  "gateways \<Rightarrow> NotificationJobData \<Rightarrow> string list
     \<Rightarrow> (js_error + provider_result) \<times> gateway_call list" where
  "sendViaFcm g d tokens =
     (if \<not> truthy_str (fcmServerKey g)
      then (Inr \<lparr>provider = ''fcm'', success = False, reason = Some ''Not configured''\<rparr>, [])
      else
        (let req = \<lparr>fcm_url = ''https://fcm.googleapis.com/fcm/send'',
                    fcm_authorization = ''key='' @ or_str (fcmServerKey g) [],
                    fcm_registration_ids = tokens,
                    fcm_notification_title = job_title d,
                    fcm_notification_body = job_message d,
                    fcm_data = job_data d\<rparr>
         in case fetch g req of
              Inl e \<Rightarrow> (Inl e, [FcmCall req])
            | Inr res \<Rightarrow>
                if \<not> res_ok res
                then (Inl (new_Error (''FCM send failed: '' @ string_of_nat (res_status res)
                                        @ '' '' @ res_text res)),
                      [FcmCall req])
                else (Inr \<lparr>provider = ''fcm'', success = True, reason = None\<rparr>,
                      [FcmCall req])))"

text \<open>What the handler returns: \<^verbatim>\<open>{ status: 'no-tokens' }\<close> or
  \<^verbatim>\<open>{ status: 'sent', results }\<close>.\<close>

datatype job_return = NoTokens | Sent "provider_result list"

text \<open>
  One run of the handler given to \<^verbatim>\<open>notificationQueue.process\<close>: \<open>outcome\<close> is the value
  it returns (the queue then moves the job to completed) or the error it throws (the queue
  then fails the attempt and retries it under the job's \<^verbatim>\<open>attempts\<close> option);
  \<open>results\<close> is the local \<^verbatim>\<open>results\<close> array as the run leaves it; \<open>calls\<close> are the
  requests sent to the gateways.
\<close>

record handler_run =
  outcome :: "js_error + job_return"
  results :: "provider_result list"
  calls :: "gateway_call list"

definition process_job :: "database \<Rightarrow> gateways \<Rightarrow> NotificationJobData \<Rightarrow> handler_run" where
  "process_job db g d =
     (case getDeviceTokensForUsers db (recipientUserIds d) of
        Inl e \<Rightarrow> \<lparr>outcome = Inl e, results = [], calls = []\<rparr>
      | Inr tokens \<Rightarrow>
          (let activeTokens = map dt_token tokens
           in if length activeTokens = 0
              then \<lparr>outcome = Inr NoTokens, results = [], calls = []\<rparr>
              else
                (let (os, os_calls) = sendViaOneSignal g d activeTokens;
                     results1 =
                       (case os of
                          Inr osResult \<Rightarrow> [osResult]
                        | Inl err \<Rightarrow>
                            [\<lparr>provider = ''onesignal'', success = False,
                              reason = err_message err\<rparr>]);
                     (fcm, fcm_calls) = sendViaFcm g d activeTokens
                 in case fcm of
                      Inr fcmResult \<Rightarrow>
                        \<lparr>outcome = Inr (Sent (results1 @ [fcmResult])),
                         results = results1 @ [fcmResult],
                         calls = os_calls @ fcm_calls\<rparr>
                    | Inl err \<Rightarrow>
                        \<lparr>outcome = Inl err,
                         results = results1 @ [\<lparr>provider = ''fcm'', success = False,
                                               reason = err_message err\<rparr>],
                         calls = os_calls @ fcm_calls\<rparr>)))"

section \<open>Notions used in the statements\<close>

text \<open>The users holding one of the listed roles, whatever their \<^verbatim>\<open>isActive\<close> flag.\<close>

definition role_holders :: "database \<Rightarrow> string list \<Rightarrow> string set" where
  "role_holders db rs =
     set (map user_id (filter (\<lambda>u. user_role_name u \<in> set rs) (users db)))"

text \<open>The specification's reading of the role filter: every active user holding any of
  the listed roles.\<close>

definition spec_active_role_holders :: "database \<Rightarrow> string list \<Rightarrow> string set" where
  "spec_active_role_holders db rs =
     set (map user_id
            (filter (\<lambda>u. user_isActive u \<and> user_role_name u \<in> set rs) (users db)))"

text \<open>A filter that names roles only: the other two categories are absent or empty.\<close>

definition roles_only :: "recipients_filter \<Rightarrow> string list \<Rightarrow> bool" where
  "roles_only r rs =
     ((userIds r = None \<or> userIds r = Some []) \<and> roles r = Some rs \<and>
      (classIds r = None \<or> classIds r = Some []))"

text \<open>The compound unique key of a device token row, and the table's uniqueness
  constraint on it.\<close>

definition row_key :: "deviceToken_row \<Rightarrow> string \<times> string" where
  "row_key r = (dt_userId r, dt_token r)"

definition unique_keys :: "database \<Rightarrow> bool" where
  "unique_keys db = distinct (map row_key (deviceTokens db))"

text \<open>A stored timestamp, if there is one, is not later than \<open>t\<close>.\<close>

definition not_after :: "int option \<Rightarrow> int \<Rightarrow> bool" where
  "not_after v t = (case v of None \<Rightarrow> True | Some x \<Rightarrow> x \<le> t)"

text \<open>A timestamp column moves forward: the new value is set, and later than the old one
  where there was one.\<close>

definition advances :: "int option \<Rightarrow> int option \<Rightarrow> bool" where
  "advances old new =
     (case new of
        None \<Rightarrow> False
      | Some n \<Rightarrow> (case old of None \<Rightarrow> True | Some v \<Rightarrow> v < n))"

text \<open>The device tokens a gateway request addresses.\<close>

definition call_tokens :: "gateway_call \<Rightarrow> string list" where
  "call_tokens c =
     (case c of
        OneSignalCall r \<Rightarrow> os_include_player_ids r
      | FcmCall r \<Rightarrow> fcm_registration_ids r)"

text \<open>The tokens of the active rows of the given users.\<close>

definition active_tokens_of :: "database \<Rightarrow> string list \<Rightarrow> string set" where
  "active_tokens_of db uids =
     set (map dt_token
            (filter (\<lambda>t. dt_isActive t \<and> dt_userId t \<in> set uids) (deviceTokens db)))"

text \<open>The users a filter reaches, path by path: the listed ids that exist, the holders of
  a listed role, the teachers assigned to a listed class, the parents of the students of
  a listed class. An absent category lists nothing.\<close>

definition opt_list :: "'a list option \<Rightarrow> 'a list" where
  "opt_list xs = (case xs of None \<Rightarrow> [] | Some l \<Rightarrow> l)"

definition listed_users :: "database \<Rightarrow> string list \<Rightarrow> string set" where
  "listed_users db ids = set (map user_id (filter (\<lambda>u. user_id u \<in> set ids) (users db)))"

definition class_teachers :: "database \<Rightarrow> string list \<Rightarrow> string set" where
  "class_teachers db cs =
     set (map tc_teacher_userId (filter (\<lambda>t. tc_classId t \<in> set cs) (teacherClasses db)))"

definition class_parents :: "database \<Rightarrow> string list \<Rightarrow> string set" where
  "class_parents db cs =
     set (concat (map (\<lambda>p. case st_parent_userId p of None \<Rightarrow> [] | Some u \<Rightarrow> [u])
                    (filter (\<lambda>p. st_classId p \<in> set cs) (students db))))"

definition reachable_users :: "database \<Rightarrow> recipients_filter \<Rightarrow> string set" where
  "reachable_users db r =
     listed_users db (opt_list (userIds r)) \<union> role_holders db (opt_list (roles r)) \<union>
     class_teachers db (opt_list (classIds r)) \<union> class_parents db (opt_list (classIds r))"

text \<open>An instance of \<^verbatim>\<open>Error\<close> as the runtime, the queue and the Redis client create
  them: the message is a string, the stack is a string or absent, and the value converts
  to a string. Connectivity errors are of this kind.\<close>

definition error_instance :: "thrown_value \<Rightarrow> bool" where
  "error_instance e =
     ((case tv_message e of JStr m \<Rightarrow> True | _ \<Rightarrow> False) \<and>
      (case tv_stack e of JStr s \<Rightarrow> True | JUndefined \<Rightarrow> True | _ \<Rightarrow> False) \<and>
      (case tv_string e of Some s \<Rightarrow> True | None \<Rightarrow> False))"


section \<open>Example data\<close>

text \<open>
  Class 9A has two teachers and three students; two of the students share the parent
  \<open>p1\<close>. The parent \<open>p2\<close> is deactivated and has one inactive device token.
\<close>

definition ex_db :: database where
  "ex_db =
     \<lparr>users =
        [\<lparr>user_id = ''t1'', user_isActive = True, user_role_name = ''TEACHER''\<rparr>,
         \<lparr>user_id = ''t2'', user_isActive = True, user_role_name = ''TEACHER''\<rparr>,
         \<lparr>user_id = ''p1'', user_isActive = True, user_role_name = ''PARENT''\<rparr>,
         \<lparr>user_id = ''p2'', user_isActive = False, user_role_name = ''PARENT''\<rparr>],
      teacherClasses =
        [\<lparr>tc_classId = ''9A'', tc_teacher_userId = ''t1''\<rparr>,
         \<lparr>tc_classId = ''9A'', tc_teacher_userId = ''t2''\<rparr>],
      students =
        [\<lparr>st_classId = ''9A'', st_isActive = True, st_parent_userId = Some ''p1''\<rparr>,
         \<lparr>st_classId = ''9A'', st_isActive = True, st_parent_userId = Some ''p1''\<rparr>,
         \<lparr>st_classId = ''9A'', st_isActive = True, st_parent_userId = Some ''p2''\<rparr>],
      deviceTokens =
        [\<lparr>dt_userId = ''p1'', dt_token = ''tok-p1'', dt_platform = ANDROID,
          dt_isActive = True, dt_lastUsedAt = Some 1000\<rparr>,
         \<lparr>dt_userId = ''p2'', dt_token = ''tok-p2'', dt_platform = IOS,
          dt_isActive = False, dt_lastUsedAt = Some 900\<rparr>],
      db_fault = None\<rparr>"

definition ex_send :: "recipients_filter \<Rightarrow> SendNotificationInput" where
  "ex_send r = \<lparr>title = ''Meeting'', message = ''Tomorrow 5pm'', recipients = r, data = None\<rparr>"

definition by_parent_role :: recipients_filter where
  "by_parent_role = \<lparr>userIds = None, roles = Some [''PARENT''], classIds = None\<rparr>"

definition by_all_paths :: recipients_filter where
  "by_all_paths =
     \<lparr>userIds = Some [''t1'', ''ghost''], roles = Some [''TEACHER''], classIds = Some [''9A'']\<rparr>"

text \<open>Values a rejected \<^verbatim>\<open>add\<close> may carry. Two errors of the Redis client while the
  backend is unreachable: a refused connection, and the error raised when the retries of
  a request are used up. Then two values that are not instances of \<^verbatim>\<open>Error\<close>: one with
  a number as \<^verbatim>\<open>stack\<close>, one with a number as \<^verbatim>\<open>message\<close>.\<close>

definition refused :: thrown_value where
  "refused =
     \<lparr>tv_message = JStr ''connect ECONNREFUSED 127.0.0.1:6379'',
      tv_code = JStr ''ECONNREFUSED'', tv_name = JStr ''Error'',
      tv_stack = JStr ''Error: connect ECONNREFUSED 127.0.0.1:6379'',
      tv_string = Some ''Error: connect ECONNREFUSED 127.0.0.1:6379''\<rparr>"

definition max_retries :: thrown_value where
  "max_retries =
     \<lparr>tv_message = JStr (''Reached the max retries per request limit (which is 1). Refer to ''
         @ [CHR 0x22] @ ''maxRetriesPerRequest'' @ [CHR 0x22] @ '' option for details.''),
      tv_code = JUndefined, tv_name = JStr ''MaxRetriesPerRequestError'',
      tv_stack = JStr ''MaxRetriesPerRequestError: Reached the max retries per request limit'',
      tv_string = Some (''MaxRetriesPerRequestError: Reached the max retries per request limit (which is 1). Refer to ''
         @ [CHR 0x22] @ ''maxRetriesPerRequest'' @ [CHR 0x22] @ '' option for details.'')\<rparr>"



definition ex_data :: "string list \<Rightarrow> NotificationJobData" where
  "ex_data rs =
     \<lparr>job_title = ''Meeting'', job_message = ''Tomorrow 5pm'', job_data = None,
      recipientUserIds = rs, initiatedBy = ''admin''\<rparr>"

text \<open>Two finished jobs; the first one failed on its last attempt.\<close>

definition ex_job :: "string \<Rightarrow> string list \<Rightarrow> int option \<Rightarrow> string option \<Rightarrow> bull_job" where
  "ex_job i rs fin why =
     \<lparr>job_id = i, job_payload = ex_data rs, job_timestamp = 1700000000000,
      job_finishedOn = fin, job_failedReason = why\<rparr>"

definition ex_failed_job :: bull_job where
  "ex_failed_job =
     ex_job ''1'' [''t1'', ''p1''] (Some 1700000005000)
       (Some ''FCM send failed: 401 Unauthorized'')"

definition ex_jobs :: "bull_job list" where
  "ex_jobs = [ex_failed_job, ex_job ''2'' [''t2''] (Some 1700000007000) None]"

definition ex_getJobs :: "string list \<Rightarrow> int \<Rightarrow> int \<Rightarrow> bool \<Rightarrow> js_error + bull_job list" where
  "ex_getJobs types start stop asc = Inr (take (nat (stop + 1)) ex_jobs)"

text \<open>Both gateways configured; OneSignal rejects the request, FCM accepts it.\<close>

definition ex_gateways :: gateways where
  "ex_gateways =
     \<lparr>oneSignalAppId = Some ''app'', oneSignalRestApiKey = Some ''key'',
      fcmServerKey = Some ''srv'',
      createNotification = (\<lambda>r. Some (new_Error ''429 Too Many Requests'')),
      fetch = (\<lambda>r. Inr \<lparr>res_ok = True, res_status = 200, res_text = []\<rparr>)\<rparr>"

definition ex_register :: "string \<Rightarrow> platform \<Rightarrow> RegisterDeviceInput" where
  "ex_register u p = \<lparr>userId = u, deviceToken = ''tok-new'', platform = p\<rparr>"

section \<open>Recipient resolution: every id once\<close>

lemma set_add_all: "set (add_all s xs) = set s \<union> set xs"
  unfolding add_all_def
  by (induction xs arbitrary: s) (auto simp: set_add_def)

lemma distinct_add_all: "distinct s \<Longrightarrow> distinct (add_all s xs)"
  unfolding add_all_def
  by (induction xs arbitrary: s) (auto simp: set_add_def)

lemma resolve_by_userIds_distinct:
  "resolve_by_userIds db r s = Inr s' \<Longrightarrow> distinct s \<Longrightarrow> distinct s'"
  by (auto simp: resolve_by_userIds_def distinct_add_all split: option.splits if_splits sum.splits)

lemma resolve_by_roles_distinct:
  "resolve_by_roles db r s = Inr s' \<Longrightarrow> distinct s \<Longrightarrow> distinct s'"
  by (auto simp: resolve_by_roles_def distinct_add_all split: option.splits if_splits sum.splits)

lemma resolve_by_classIds_distinct:
  "resolve_by_classIds db r s = Inr s' \<Longrightarrow> distinct s \<Longrightarrow> distinct s'"
  by (auto simp: resolve_by_classIds_def distinct_add_all split: option.splits if_splits sum.splits)

lemma resolve_distinct:
  assumes "resolveRecipientUserIds db payload = Inr ids"
  shows "distinct ids"
proof -
  from assms obtain s1 s2 where
    s1: "resolve_by_userIds db (recipients payload) [] = Inr s1" and
    s2: "resolve_by_roles db (recipients payload) s1 = Inr s2" and
    s3: "resolve_by_classIds db (recipients payload) s2 = Inr ids"
    by (auto simp: resolveRecipientUserIds_def split: sum.splits)
  from s1 have "distinct s1" by (rule resolve_by_userIds_distinct) simp
  with s2 have "distinct s2" by (rule resolve_by_roles_distinct)
  with s3 show ?thesis by (rule resolve_by_classIds_distinct)
qed

lemma distinct_count_one: "distinct xs \<Longrightarrow> x \<in> set xs \<Longrightarrow> count_list xs x = 1"
  by (induction xs) auto

lemmas resolve_defs = resolveRecipientUserIds_def resolve_by_userIds_def resolve_by_roles_def
  resolve_by_classIds_def findMany_def add_all_def set_add_def

lemma ex_all_paths:
  "resolveRecipientUserIds ex_db (ex_send by_all_paths) =
     Inr [''t1'', ''t2'', ''p1'', ''p2'']"
  by (simp add: resolve_defs ex_db_def ex_send_def by_all_paths_def)

lemma ex_parent_role:
  "resolveRecipientUserIds ex_db (ex_send by_parent_role) = Inr [''p1'', ''p2'']"
  by (simp add: resolve_defs ex_db_def ex_send_def by_parent_role_def)

lemma resolve_by_userIds_set:
  assumes "db_fault db = None"
  shows "\<exists>s'. resolve_by_userIds db r s = Inr s' \<and>
           set s' = set s \<union> listed_users db (opt_list (userIds r))"
  using assms
  by (auto simp: resolve_by_userIds_def findMany_def listed_users_def opt_list_def
        set_add_all split: option.splits)

lemma resolve_by_roles_set:
  assumes "db_fault db = None"
  shows "\<exists>s'. resolve_by_roles db r s = Inr s' \<and>
           set s' = set s \<union> role_holders db (opt_list (roles r))"
  using assms
  by (auto simp: resolve_by_roles_def findMany_def role_holders_def opt_list_def
        set_add_all split: option.splits)

lemma resolve_by_classIds_set:
  assumes "db_fault db = None"
  shows "\<exists>s'. resolve_by_classIds db r s = Inr s' \<and>
           set s' = set s \<union> class_teachers db (opt_list (classIds r)) \<union>
                    class_parents db (opt_list (classIds r))"
  using assms
  by (auto simp: resolve_by_classIds_def findMany_def class_teachers_def class_parents_def
        opt_list_def set_add_all split: option.splits)

lemma resolve_set:
  assumes "db_fault db = None"
  shows "\<exists>ids. resolveRecipientUserIds db payload = Inr ids \<and>
           set ids = reachable_users db (recipients payload)"
proof -
  from resolve_by_userIds_set [OF assms, of "recipients payload" "[]"]
  obtain s1 where s1: "resolve_by_userIds db (recipients payload) [] = Inr s1"
    "set s1 = listed_users db (opt_list (userIds (recipients payload)))"
    by auto
  from resolve_by_roles_set [OF assms, of "recipients payload" s1]
  obtain s2 where s2: "resolve_by_roles db (recipients payload) s1 = Inr s2"
    "set s2 = set s1 \<union> role_holders db (opt_list (roles (recipients payload)))"
    by auto
  from resolve_by_classIds_set [OF assms, of "recipients payload" s2]
  obtain s3 where s3: "resolve_by_classIds db (recipients payload) s2 = Inr s3"
    "set s3 = set s2 \<union> class_teachers db (opt_list (classIds (recipients payload))) \<union>
              class_parents db (opt_list (classIds (recipients payload)))"
    by auto
  from s1(1) s2(1) s3(1) have "resolveRecipientUserIds db payload = Inr s3"
    by (simp add: resolveRecipientUserIds_def)
  moreover from s1(2) s2(2) s3(2) have "set s3 = reachable_users db (recipients payload)"
    by (simp add: reachable_users_def)
  ultimately show ?thesis by blast
qed

text \<open>
  Claim C4. For every recipient filter, while the database answers, the resolver returns
  a deduplicated list of exactly the users the filter reaches: every user reached by one
  or more of the filter paths (a listed id, a listed role, teaching a listed class, being
  the parent of a student of a listed class) occurs in the result exactly once, and nobody
  else occurs in it.
\<close>

theorem resolveRecipientUserIds_deduplicated:
  assumes "db_fault db = None"
  shows "\<exists>ids. resolveRecipientUserIds db payload = Inr ids \<and>
           set ids = reachable_users db (recipients payload) \<and> distinct ids \<and>
           (\<forall>u \<in> reachable_users db (recipients payload). count_list ids u = 1)"
proof -
  from resolve_set [OF assms, of payload]
  obtain ids where ids: "resolveRecipientUserIds db payload = Inr ids"
    "set ids = reachable_users db (recipients payload)"
    by blast
  from ids(1) have d: "distinct ids" by (rule resolve_distinct)
  with ids(2) have "\<forall>u \<in> reachable_users db (recipients payload). count_list ids u = 1"
    by (simp add: distinct_count_one)
  with ids d show ?thesis by blast
qed

text \<open>In the example \<open>t1\<close> is listed by id, holds the listed role and teaches the listed
  class, \<open>t2\<close> is reached by role and by class, and \<open>p1\<close> through two students: two
  teachers and two parents come out, each once; the unknown id reaches nobody.\<close>

theorem resolveRecipientUserIds_deduplicated_witness:
  "resolveRecipientUserIds ex_db (ex_send by_all_paths) =
     Inr [''t1'', ''t2'', ''p1'', ''p2''] \<and>
   reachable_users ex_db (recipients (ex_send by_all_paths)) =
     {''t1'', ''t2'', ''p1'', ''p2''} \<and>
   count_list [''t1'', ''t2'', ''p1'', ''p2''] ''t1'' = 1 \<and>
   count_list [''t1'', ''t2'', ''p1'', ''p2''] ''p1'' = 1"
proof -
  have f: "db_fault ex_db = None" by (simp add: ex_db_def)
  from resolveRecipientUserIds_deduplicated [OF f, of "ex_send by_all_paths"] ex_all_paths
  have "set [''t1'', ''t2'', ''p1'', ''p2''] =
          reachable_users ex_db (recipients (ex_send by_all_paths))"
    by auto
  then have "reachable_users ex_db (recipients (ex_send by_all_paths)) =
          {''t1'', ''t2'', ''p1'', ''p2''}"
    by auto
  with ex_all_paths show ?thesis by simp
qed

section \<open>Recipient resolution: the role filter\<close>

text \<open>
  Claim C3, as the code has it. For every filter that names roles only, while the
  database answers, the resolver returns exactly the users holding one of the listed
  roles, each once. The query on \<^verbatim>\<open>role.name\<close> does not look at \<^verbatim>\<open>isActive\<close>, so
  deactivated users are among them.
\<close>

theorem roles_only_resolves_role_holders:
  assumes "db_fault db = None" and "roles_only (recipients payload) rs"
  shows "\<exists>ids. resolveRecipientUserIds db payload = Inr ids \<and> distinct ids \<and>
           set ids = role_holders db rs"
  using assms
  by (auto simp: resolveRecipientUserIds_def roles_only_def resolve_by_userIds_def
        resolve_by_roles_def resolve_by_classIds_def findMany_def role_holders_def
        set_add_all distinct_add_all)

theorem roles_only_resolves_role_holders_witness:
  "resolveRecipientUserIds ex_db (ex_send by_parent_role) = Inr [''p1'', ''p2''] \<and>
   role_holders ex_db [''PARENT''] = {''p1'', ''p2''}"
proof -
  have f: "db_fault ex_db = None" by (simp add: ex_db_def)
  have r: "roles_only (recipients (ex_send by_parent_role)) [''PARENT'']"
    by (simp add: roles_only_def ex_send_def by_parent_role_def)
  from roles_only_resolves_role_holders [OF f r] ex_parent_role
  show ?thesis by auto
qed

text \<open>The claim as the specification words it fails: \<open>p2\<close> is deactivated, holds the
  role PARENT, and is resolved.\<close>

theorem roles_only_inactive_counterexample:
  "resolveRecipientUserIds ex_db (ex_send by_parent_role) = Inr [''p1'', ''p2''] \<and>
   spec_active_role_holders ex_db [''PARENT''] = {''p1''} \<and>
   set [''p1'', ''p2''] \<noteq> spec_active_role_holders ex_db [''PARENT'']"
proof -
  have s: "spec_active_role_holders ex_db [''PARENT''] = {''p1''}"
    by (simp add: spec_active_role_holders_def ex_db_def)
  have "set [''p1'', ''p2''] \<noteq> {''p1''}" by auto
  with s ex_parent_role show ?thesis by simp
qed

section \<open>Device registration\<close>

text \<open>
  Claim C6. When the \<^verbatim>\<open>userId\<close> of the request differs from the authenticated
  requester, \<open>registerDevice\<close> fails with a conflict error and leaves the database as it
  was: no device token row is created or modified.
\<close>

theorem registerDevice_other_user_conflict:
  assumes "userId input \<noteq> requesterUserId"
  shows "registerDevice column_default now db input requesterUserId =
           (Inl (ConflictError ''User ID does not match authenticated user''), db)"
  using assms by (simp add: registerDevice_def)

theorem registerDevice_other_user_conflict_witness:
  "registerDevice Some 2000 ex_db (ex_register ''p1'' IOS) ''p2'' =
     (Inl (ConflictError ''User ID does not match authenticated user''), ex_db)"
proof -
  have h: "userId (ex_register ''p1'' IOS) \<noteq> ''p2''" by (simp add: ex_register_def)
  from registerDevice_other_user_conflict [OF h] show ?thesis by simp
qed

section \<open>Device registration: upsert on the unique key\<close>

lemma has_key_row_key: "has_key u t r = (row_key r = (u, t))"
  by (auto simp: has_key_def row_key_def)

lemma filter_key_unique:
  "distinct (map f xs) \<Longrightarrow> x \<in> set xs \<Longrightarrow> filter (\<lambda>r. f r = f x) xs = [x]"
proof (induction xs)
  case Nil
  then show ?case by simp
next
  case (Cons a xs)
  show ?case
  proof (cases "a = x")
    case True
    with Cons.prems have "f x \<notin> f ` set xs" by simp
    then have "\<forall>r \<in> set xs. f r \<noteq> f x" by (metis imageI)
    then have "filter (\<lambda>r. f r = f x) xs = []" by (simp add: filter_empty_conv)
    with True show ?thesis by simp
  next
    case False
    with Cons.prems have "x \<in> set xs" "f a \<noteq> f x" by force+
    with Cons show ?thesis by simp
  qed
qed

lemma filter_has_key_cases:
  assumes "unique_keys db"
  shows "filter (has_key u t) (deviceTokens db) = [] \<or>
         (\<exists>r. filter (has_key u t) (deviceTokens db) = [r] \<and> has_key u t r)"
proof (cases "filter (has_key u t) (deviceTokens db)")
  case Nil
  then show ?thesis by simp
next
  case (Cons r rs)
  then have "r \<in> set (filter (has_key u t) (deviceTokens db))" by simp
  then have r: "r \<in> set (deviceTokens db)" "has_key u t r" by auto
  then have "row_key r = (u, t)" by (simp add: has_key_row_key)
  with filter_key_unique [of row_key "deviceTokens db" r] assms r
  have "filter (has_key u t) (deviceTokens db) = [r]"
    by (simp add: unique_keys_def has_key_row_key [abs_def])
  with r show ?thesis by simp
qed

lemma upsert_create:
  assumes "db_fault db = None" and "filter (has_key u t) (deviceTokens db) = []"
  shows "upsert_deviceToken cd now db u t p =
           (Inr \<lparr>dt_userId = u, dt_token = t, dt_platform = p, dt_isActive = True,
                 dt_lastUsedAt = cd now\<rparr>,
            db\<lparr>deviceTokens := deviceTokens db @
                 [\<lparr>dt_userId = u, dt_token = t, dt_platform = p, dt_isActive = True,
                   dt_lastUsedAt = cd now\<rparr>]\<rparr>)"
  using assms by (simp add: upsert_deviceToken_def Let_def)

lemma upsert_update:
  assumes "db_fault db = None" and "filter (has_key u t) (deviceTokens db) = [r]"
  shows "upsert_deviceToken cd now db u t p =
           (Inr \<lparr>dt_userId = u, dt_token = t, dt_platform = p, dt_isActive = True,
                 dt_lastUsedAt = Some now\<rparr>,
            db\<lparr>deviceTokens :=
                 map (\<lambda>x. if has_key u t x
                          then \<lparr>dt_userId = u, dt_token = t, dt_platform = p, dt_isActive = True,
                                dt_lastUsedAt = Some now\<rparr>
                          else x) (deviceTokens db)\<rparr>)"
proof -
  from assms(2) have "r \<in> set (filter (has_key u t) (deviceTokens db))" by simp
  then have "has_key u t r" by simp
  then have r: "r\<lparr>dt_platform := p, dt_isActive := True, dt_lastUsedAt := Some now\<rparr> =
      \<lparr>dt_userId = u, dt_token = t, dt_platform = p, dt_isActive = True,
       dt_lastUsedAt = Some now\<rparr>"
    by (simp add: has_key_def)
  have m: "map (\<lambda>x. if has_key u t x
                 then x\<lparr>dt_platform := p, dt_isActive := True, dt_lastUsedAt := Some now\<rparr>
                 else x) (deviceTokens db) =
        map (\<lambda>x. if has_key u t x
                 then \<lparr>dt_userId = u, dt_token = t, dt_platform = p, dt_isActive = True,
                       dt_lastUsedAt = Some now\<rparr>
                 else x) (deviceTokens db)"
    by (rule map_cong) (auto simp: has_key_def)
  show ?thesis
    using assms r m by (simp add: upsert_deviceToken_def Let_def)
qed

lemma filter_map_key:
  assumes "has_key u t v"
  shows "filter (has_key u t) (map (\<lambda>x. if has_key u t x then v else x) xs) =
         map (\<lambda>x. v) (filter (has_key u t) xs)"
  using assms by (induction xs) auto

lemma keys_map_key:
  assumes "has_key u t v"
  shows "map row_key (map (\<lambda>x. if has_key u t x then v else x) xs) = map row_key xs"
  using assms by (induction xs) (auto simp: has_key_row_key)


lemma upsert_first:
  assumes "db_fault db = None" and "unique_keys db"
  shows "\<exists>row db1. upsert_deviceToken cd now db u t p = (Inr row, db1) \<and>
           db_fault db1 = None \<and> unique_keys db1 \<and>
           has_key u t row \<and> dt_platform row = p \<and> dt_isActive row \<and>
           filter (has_key u t) (deviceTokens db1) = [row] \<and>
           (dt_lastUsedAt row = Some now \<or> dt_lastUsedAt row = cd now) \<and>
           (filter (has_key u t) (deviceTokens db) = [] \<longrightarrow>
              deviceTokens db1 = deviceTokens db @ [row] \<and> dt_lastUsedAt row = cd now) \<and>
           (filter (has_key u t) (deviceTokens db) \<noteq> [] \<longrightarrow>
              length (deviceTokens db1) = length (deviceTokens db) \<and>
              dt_lastUsedAt row = Some now)"
proof -
  let ?new = "\<lparr>dt_userId = u, dt_token = t, dt_platform = p, dt_isActive = True,
               dt_lastUsedAt = cd now\<rparr>"
  let ?upd = "\<lparr>dt_userId = u, dt_token = t, dt_platform = p, dt_isActive = True,
               dt_lastUsedAt = Some now\<rparr>"
  from filter_has_key_cases [OF assms(2), of u t]
  consider (absent) "filter (has_key u t) (deviceTokens db) = []"
    | (present) r where "filter (has_key u t) (deviceTokens db) = [r]"
    by blast
  then show ?thesis
  proof cases
    case absent
    then have none: "\<forall>r \<in> set (deviceTokens db). row_key r \<noteq> (u, t)"
      by (simp add: filter_empty_conv has_key_row_key)
    then have "(u, t) \<notin> set (map row_key (deviceTokens db))" by auto
    with assms(2) have "unique_keys (db\<lparr>deviceTokens := deviceTokens db @ [?new]\<rparr>)"
      by (simp add: unique_keys_def row_key_def)
    moreover have "has_key u t ?new" by (simp add: has_key_def)
    ultimately show ?thesis
      using upsert_create [OF assms(1) absent, of cd now p] absent assms(1)
      by simp
  next
    case present
    have k: "has_key u t ?upd" by (simp add: has_key_def)
    have "unique_keys (db\<lparr>deviceTokens :=
            map (\<lambda>x. if has_key u t x then ?upd else x) (deviceTokens db)\<rparr>)"
      using assms(2) keys_map_key [OF k, of "deviceTokens db"]
      by (simp add: unique_keys_def del: map_map)
    moreover have "filter (has_key u t)
            (map (\<lambda>x. if has_key u t x then ?upd else x) (deviceTokens db)) = [?upd]"
      using filter_map_key [OF k, of "deviceTokens db"] present by simp
    ultimately show ?thesis
      using upsert_update [OF assms(1) present, of cd now p] present assms(1) k
      by simp
  qed
qed

text \<open>
  Claim C7. \<open>registerDevice\<close> is an upsert on the pair (userId, token). With the
  database answering and the pair unique in the table, two calls by the same user with the
  same token, at times \<open>now1 < now2\<close>, leave exactly one row for the pair: the first
  call returns an active row with the first platform (appended to the table when the pair
  was new), the second call returns and stores the row with the second platform,
  \<^verbatim>\<open>isActive = true\<close> and \<^verbatim>\<open>lastUsedAt = now2\<close>, which is later than the value the
  first call left, and adds no row. The default of the \<^verbatim>\<open>lastUsedAt\<close> column is taken
  not to lie in the future of the insert.
\<close>

theorem registerDevice_upsert:
  assumes ok: "db_fault db = None" "unique_keys db"
    and i1: "userId i1 = u" "deviceToken i1 = t"
    and i2: "userId i2 = u" "deviceToken i2 = t"
    and clock: "now1 < now2" "not_after (cd now1) now1"
    and c1: "registerDevice cd now1 db i1 u = (r1, db1)"
    and c2: "registerDevice cd now2 db1 i2 u = (r2, db2)"
  shows "\<exists>row1.
           r1 = Inr row1 \<and> dt_isActive row1 \<and> dt_platform row1 = platform i1 \<and>
           filter (has_key u t) (deviceTokens db1) = [row1] \<and>
           (filter (has_key u t) (deviceTokens db) = [] \<longrightarrow>
              deviceTokens db1 = deviceTokens db @ [row1]) \<and>
           r2 = Inr \<lparr>dt_userId = u, dt_token = t, dt_platform = platform i2,
                     dt_isActive = True, dt_lastUsedAt = Some now2\<rparr> \<and>
           filter (has_key u t) (deviceTokens db2) =
             [\<lparr>dt_userId = u, dt_token = t, dt_platform = platform i2,
               dt_isActive = True, dt_lastUsedAt = Some now2\<rparr>] \<and>
           length (deviceTokens db2) = length (deviceTokens db1) \<and>
           advances (dt_lastUsedAt row1) (Some now2)"
proof -
  from upsert_first [OF ok, of cd now1 u t "platform i1"]
  obtain row1 d1 where
    u1: "upsert_deviceToken cd now1 db u t (platform i1) = (Inr row1, d1)" and
    ok1: "db_fault d1 = None" "unique_keys d1" and
    row1: "has_key u t row1" "dt_platform row1 = platform i1" "dt_isActive row1"
      "filter (has_key u t) (deviceTokens d1) = [row1]"
      "dt_lastUsedAt row1 = Some now1 \<or> dt_lastUsedAt row1 = cd now1" and
    new1: "filter (has_key u t) (deviceTokens db) = [] \<longrightarrow>
             deviceTokens d1 = deviceTokens db @ [row1]"
    by blast
  from c1 u1 i1 have r1: "r1 = Inr row1" "db1 = d1"
    by (simp_all add: registerDevice_def)
  from row1(4) have present: "filter (has_key u t) (deviceTokens db1) = [row1]"
    by (simp add: r1)
  from upsert_update [of db1 u t row1 cd now2 "platform i2"] ok1 present
  have u2: "upsert_deviceToken cd now2 db1 u t (platform i2) =
      (Inr \<lparr>dt_userId = u, dt_token = t, dt_platform = platform i2, dt_isActive = True,
            dt_lastUsedAt = Some now2\<rparr>,
       db1\<lparr>deviceTokens :=
            map (\<lambda>x. if has_key u t x
                     then \<lparr>dt_userId = u, dt_token = t, dt_platform = platform i2,
                           dt_isActive = True, dt_lastUsedAt = Some now2\<rparr>
                     else x) (deviceTokens db1)\<rparr>)"
    by (simp add: r1)
  have k: "has_key u t \<lparr>dt_userId = u, dt_token = t, dt_platform = platform i2,
             dt_isActive = True, dt_lastUsedAt = Some now2\<rparr>"
    by (simp add: has_key_def)
  from c2 u2 i2 have r2: "r2 = Inr \<lparr>dt_userId = u, dt_token = t, dt_platform = platform i2,
             dt_isActive = True, dt_lastUsedAt = Some now2\<rparr>"
    and db2: "deviceTokens db2 = map (\<lambda>x. if has_key u t x
                     then \<lparr>dt_userId = u, dt_token = t, dt_platform = platform i2,
                           dt_isActive = True, dt_lastUsedAt = Some now2\<rparr>
                     else x) (deviceTokens db1)"
    by (auto simp: registerDevice_def)
  from db2 filter_map_key [OF k, of "deviceTokens db1"] present
  have f2: "filter (has_key u t) (deviceTokens db2) =
      [\<lparr>dt_userId = u, dt_token = t, dt_platform = platform i2,
        dt_isActive = True, dt_lastUsedAt = Some now2\<rparr>]"
    by simp
  from db2 have len: "length (deviceTokens db2) = length (deviceTokens db1)" by simp
  from row1(5) clock have adv: "advances (dt_lastUsedAt row1) (Some now2)"
    by (auto simp: advances_def not_after_def split: option.splits)
  from r1 row1 present new1 r2 f2 len adv show ?thesis by simp
qed

text \<open>A first registration of a new token by \<open>p1\<close> on ANDROID at time 2000, then
  the same token on IOS at time 3000.\<close>

theorem registerDevice_upsert_witness:
  "filter (has_key ''p1'' ''tok-new'')
     (deviceTokens
        (snd (registerDevice Some 3000
                (snd (registerDevice Some 2000 ex_db (ex_register ''p1'' ANDROID) ''p1''))
                (ex_register ''p1'' IOS) ''p1''))) =
     [\<lparr>dt_userId = ''p1'', dt_token = ''tok-new'', dt_platform = IOS, dt_isActive = True,
       dt_lastUsedAt = Some 3000\<rparr>] \<and>
   fst (registerDevice Some 2000 ex_db (ex_register ''p1'' ANDROID) ''p1'') =
     Inr \<lparr>dt_userId = ''p1'', dt_token = ''tok-new'', dt_platform = ANDROID,
          dt_isActive = True, dt_lastUsedAt = Some 2000\<rparr> \<and>
   length (deviceTokens
        (snd (registerDevice Some 3000
                (snd (registerDevice Some 2000 ex_db (ex_register ''p1'' ANDROID) ''p1''))
                (ex_register ''p1'' IOS) ''p1''))) = 3"
proof -
  let ?c1 = "registerDevice Some 2000 ex_db (ex_register ''p1'' ANDROID) ''p1''"
  let ?c2 = "registerDevice Some 3000 (snd ?c1) (ex_register ''p1'' IOS) ''p1''"
  have ok: "db_fault ex_db = None" "unique_keys ex_db"
    by (simp_all add: ex_db_def unique_keys_def row_key_def)
  have i1: "userId (ex_register ''p1'' ANDROID) = ''p1''"
    "deviceToken (ex_register ''p1'' ANDROID) = ''tok-new''"
    by (simp_all add: ex_register_def)
  have i2: "userId (ex_register ''p1'' IOS) = ''p1''"
    "deviceToken (ex_register ''p1'' IOS) = ''tok-new''"
    by (simp_all add: ex_register_def)
  have clock: "(2000::int) < 3000" "not_after (Some 2000) 2000"
    by (simp_all add: not_after_def)
  have c1: "?c1 = (fst ?c1, snd ?c1)" by simp
  have c2: "?c2 = (fst ?c2, snd ?c2)" by simp
  have new: "filter (has_key ''p1'' ''tok-new'') (deviceTokens ex_db) = []"
    by (simp add: ex_db_def has_key_def)
  have len: "length (deviceTokens ex_db) = 2" by (simp add: ex_db_def)
  have p: "platform (ex_register ''p1'' ANDROID) = ANDROID"
    "platform (ex_register ''p1'' IOS) = IOS"
    by (simp_all add: ex_register_def)
  from registerDevice_upsert [OF ok i1 i2 clock c1 c2]
  obtain row1 where
    r1: "fst ?c1 = Inr row1" "dt_platform row1 = platform (ex_register ''p1'' ANDROID)"
      "filter (has_key ''p1'' ''tok-new'') (deviceTokens (snd ?c1)) = [row1]"
      "filter (has_key ''p1'' ''tok-new'') (deviceTokens ex_db) = [] \<longrightarrow>
         deviceTokens (snd ?c1) = deviceTokens ex_db @ [row1]" and
    r2: "filter (has_key ''p1'' ''tok-new'') (deviceTokens (snd ?c2)) =
      [\<lparr>dt_userId = ''p1'', dt_token = ''tok-new'',
        dt_platform = platform (ex_register ''p1'' IOS),
        dt_isActive = True, dt_lastUsedAt = Some 3000\<rparr>]"
      "length (deviceTokens (snd ?c2)) = length (deviceTokens (snd ?c1))"
    by blast
  have first: "fst ?c1 =
     Inr \<lparr>dt_userId = ''p1'', dt_token = ''tok-new'', dt_platform = ANDROID,
          dt_isActive = True, dt_lastUsedAt = Some 2000\<rparr>"
    using ok(1) new i1 p(1)
    by (simp add: registerDevice_def upsert_deviceToken_def Let_def)
  from r1(4) new len have "length (deviceTokens (snd ?c1)) = 3" by simp
  with r2 p first show ?thesis by simp
qed

section \<open>Enqueueing: errors of the queue\<close>

lemma enqueue_add_rejected:
  assumes "resolveRecipientUserIds db input = Inr ids" and "ids \<noteq> []"
    and "add \<lparr>job_title = title input, job_message = message input, job_data = data input,
              recipientUserIds = ids, initiatedBy = initiator\<rparr> = Inl error"
  shows "enqueueNotification db add input initiator = catch_add_error error (length ids)"
  using assms by (simp add: enqueueNotification_def Let_def)

text \<open>For an instance of \<^verbatim>\<open>Error\<close> no statement of the catch block throws, and both
  branches return a degraded response with a warning text.\<close>

lemma catch_add_error_instance:
  assumes "error_instance error"
  shows "\<exists>w. w \<noteq> [] \<and>
           catch_add_error error n = Inr \<lparr>queued = False, recipientCount = n, warning = Some w\<rparr>"
proof -
  from assms obtain m s where m: "tv_message error = JStr m" and s: "tv_string error = Some s"
    by (auto simp: error_instance_def split: js_value.splits option.splits)
  from assms have "tv_stack error = JUndefined \<or> (\<exists>t. tv_stack error = JStr t)"
    by (auto simp: error_instance_def split: js_value.splits)
  then obtain x where x: "stack_excerpt error = Inr x"
    by (auto simp: stack_excerpt_def)
  obtain v where v: "message_or_string error = Inr (JStr v)"
    using m s by (cases "m = []") (simp_all add: message_or_string_def truthy_def String_of_def)
  have l: "toLowerCase_value (or_value (JStr v) (JStr [])) = Inr (toLowerCase v)"
    by (cases "v = []") (simp_all add: toLowerCase_value_def or_value_def truthy_def toLowerCase_def)
  let ?red = "isRedisError (toLowerCase v) (or_value (tv_code error) (JStr []))
                (or_value (tv_name error) (JStr [])) (toLowerCase s)"
  let ?w = "if ?red
            then ''Notification queue unavailable. Please ensure Redis is running on localhost:6379. Notification was not sent.''
            else ''Notification queue error: '' @ template_string (JStr v)
                   @ ''. Please check Redis connection.''"
  have "catch_add_error error n =
          Inr \<lparr>queued = False, recipientCount = n, warning = Some ?w\<rparr>"
    using x v l s by (simp add: catch_add_error_def String_of_def Let_def)
  moreover have "?w \<noteq> []" by simp
  ultimately show ?thesis by blast
qed

lemmas catch_defs = catch_add_error_def stack_excerpt_def message_or_string_def String_of_def
  toLowerCase_value_def or_value_def truthy_def template_string_def isRedisError_def
  toLowerCase_def lower_char_def new_TypeError_def Let_def

lemma ex_refused:
  "catch_add_error refused 2 =
     Inr \<lparr>queued = False, recipientCount = 2,
          warning = Some ''Notification queue unavailable. Please ensure Redis is running on localhost:6379. Notification was not sent.''\<rparr>"
  by (simp add: catch_defs refused_def)

lemma ex_max_retries:
  "catch_add_error max_retries 2 =
     Inr \<lparr>queued = False, recipientCount = 2,
          warning = Some (''Notification queue error: Reached the max retries per request limit (which is 1). Refer to ''
            @ [CHR 0x22] @ ''maxRetriesPerRequest'' @ [CHR 0x22]
            @ '' option for details.. Please check Redis connection.'')\<rparr>"
  by (simp add: catch_defs max_retries_def)



text \<open>
  Claim C1. When the recipient set resolves to a non-empty list of \<open>N\<close> users and
  \<^verbatim>\<open>notificationQueue.add\<close> rejects with an error object, as every connectivity error
  of the queue backend is, \<open>enqueueNotification\<close> does not throw: it returns
  \<^verbatim>\<open>{queued: false, recipientCount: N, warning}\<close> with a non-empty warning, \<open>N\<close> being
  the number of distinct resolved users. This holds whether or not the tests of
  \<^verbatim>\<open>isRedisError\<close> recognise the error.
\<close>

theorem enqueue_connectivity_failure_degrades:
  assumes "resolveRecipientUserIds db input = Inr ids" and "ids \<noteq> []"
    and "add \<lparr>job_title = title input, job_message = message input, job_data = data input,
              recipientUserIds = ids, initiatedBy = initiator\<rparr> = Inl error"
    and "error_instance error"
  shows "\<exists>w. w \<noteq> [] \<and>
           enqueueNotification db add input initiator =
             Inr \<lparr>queued = False, recipientCount = card (set ids), warning = Some w\<rparr>"
proof -
  from assms(1) have "distinct ids" by (rule resolve_distinct)
  then have c: "card (set ids) = length ids" by (rule distinct_card)
  from catch_add_error_instance [OF assms(4), of "length ids"]
  obtain w where w: "w \<noteq> []"
    "catch_add_error error (length ids) =
       Inr \<lparr>queued = False, recipientCount = length ids, warning = Some w\<rparr>"
    by blast
  from enqueue_add_rejected [of db input ids add initiator error, OF assms(1,2,3)] w(2) c
  have "enqueueNotification db add input initiator =
          Inr \<lparr>queued = False, recipientCount = card (set ids), warning = Some w\<rparr>"
    by simp
  with w(1) show ?thesis by blast
qed

text \<open>The refused connection takes the first return. The error of the used-up retries
  passes none of the tests of \<^verbatim>\<open>isRedisError\<close> and takes the second return.\<close>

theorem enqueue_connectivity_failure_degrades_witness:
  "enqueueNotification ex_db (\<lambda>d. Inl refused) (ex_send by_parent_role) ''admin'' =
     Inr \<lparr>queued = False, recipientCount = 2,
          warning = Some ''Notification queue unavailable. Please ensure Redis is running on localhost:6379. Notification was not sent.''\<rparr> \<and>
   enqueueNotification ex_db (\<lambda>d. Inl max_retries) (ex_send by_parent_role) ''admin'' =
     Inr \<lparr>queued = False, recipientCount = 2,
          warning = Some (''Notification queue error: Reached the max retries per request limit (which is 1). Refer to ''
            @ [CHR 0x22] @ ''maxRetriesPerRequest'' @ [CHR 0x22]
            @ '' option for details.. Please check Redis connection.'')\<rparr>"
proof -
  have h: "[''p1'', ''p2''] \<noteq> ([] :: string list)" by simp
  have l: "length [''p1'', ''p2''] = (2::nat)" by simp
  have i: "error_instance refused" "error_instance max_retries"
    by (simp_all add: error_instance_def refused_def max_retries_def)
  have r: "enqueueNotification ex_db (\<lambda>d. Inl refused) (ex_send by_parent_role) ''admin'' =
      catch_add_error refused 2"
    using enqueue_add_rejected
      [of ex_db "ex_send by_parent_role" "[''p1'', ''p2'']" "\<lambda>d. Inl refused" "''admin''" refused,
       OF ex_parent_role h refl]
    unfolding l .
  have m: "enqueueNotification ex_db (\<lambda>d. Inl max_retries) (ex_send by_parent_role) ''admin'' =
      catch_add_error max_retries 2"
    using enqueue_add_rejected
      [of ex_db "ex_send by_parent_role" "[''p1'', ''p2'']" "\<lambda>d. Inl max_retries" "''admin''"
        max_retries, OF ex_parent_role h refl]
    unfolding l .
  from enqueue_connectivity_failure_degrades
      [of ex_db "ex_send by_parent_role" "[''p1'', ''p2'']" "\<lambda>d. Inl refused" "''admin''" refused,
       OF ex_parent_role h refl i(1)]
    enqueue_connectivity_failure_degrades
      [of ex_db "ex_send by_parent_role" "[''p1'', ''p2'']" "\<lambda>d. Inl max_retries" "''admin''"
        max_retries, OF ex_parent_role h refl i(2)]
    r m ex_refused ex_max_retries
  show ?thesis by simp
qed


section \<open>Job history\<close>

lemma listNotifications_eq:
  assumes "getJobs [''completed'', ''failed''] 0 (effective_limit limit - 1) False = Inr jobs"
  shows "listNotifications getJobs role uid limit =
           Inr (if role = ''SCHOOL_ADMIN'' then map job_item jobs
                else filter (\<lambda>item. uid \<in> set (item_recipientUserIds item)) (map job_item jobs))"
  using assms by (simp add: listNotifications_def Let_def)


lemma ex_range:
  "ex_getJobs [''completed'', ''failed''] 0 (effective_limit None - 1) False = Inr ex_jobs"
  by (simp add: ex_getJobs_def effective_limit_def ex_jobs_def)

lemma ex_admin_list:
  "listNotifications ex_getJobs ''SCHOOL_ADMIN'' ''admin'' None = Inr (map job_item ex_jobs)"
  using listNotifications_eq [of ex_getJobs None ex_jobs "''SCHOOL_ADMIN''" "''admin''",
      OF ex_range]
  by simp






text \<open>
  Claim C10. Every summary returned by \<open>listNotifications\<close> is the summary of a job the
  queue returned, and its \<^verbatim>\<open>state\<close> is read off the job's \<^verbatim>\<open>finishedOn\<close> alone:
  ``completed'' when \<^verbatim>\<open>finishedOn\<close> is set (a truthy timestamp, so not \<^verbatim>\<open>0\<close>) and
  ``failed'' otherwise, whatever the job's \<^verbatim>\<open>failedReason\<close>. A job that failed and
  carries a finish timestamp is therefore reported as ``completed''.
\<close>

theorem listNotifications_state_from_finishedOn:
  assumes "listNotifications getJobs role uid limit = Inr items" and "item \<in> set items"
  shows "(\<exists>jobs job.
            getJobs [''completed'', ''failed''] 0 (effective_limit limit - 1) False = Inr jobs \<and>
            job \<in> set jobs \<and> item = job_item job \<and>
            item_finishedOn item = job_finishedOn job) \<and>
         item_state item =
           (case item_finishedOn item of
              None \<Rightarrow> ''failed''
            | Some t \<Rightarrow> if t = 0 then ''failed'' else ''completed'')"
proof -
  from assms(1) obtain jobs where
    jobs: "getJobs [''completed'', ''failed''] 0 (effective_limit limit - 1) False = Inr jobs"
    by (cases "getJobs [''completed'', ''failed''] 0 (effective_limit limit - 1) False")
       (simp_all add: listNotifications_def Let_def)
  from listNotifications_eq [of getJobs limit jobs role uid, OF jobs] assms
  have "item \<in> set (map job_item jobs)" by (auto split: if_splits)
  then obtain job where job: "job \<in> set jobs" "item = job_item job" by auto
  have st: "item_state (job_item job) =
           (case item_finishedOn (job_item job) of
              None \<Rightarrow> ''failed''
            | Some t \<Rightarrow> if t = 0 then ''failed'' else ''completed'')"
    by (simp add: job_item_def truthy_num_def split: option.splits)
  have "item_finishedOn (job_item job) = job_finishedOn job" by (simp add: job_item_def)
  with jobs job st show ?thesis by blast
qed

text \<open>The first example job failed with an FCM error and has a finish timestamp: the
  administrator's listing shows it as completed, with the failure reason beside it.\<close>

theorem listNotifications_state_from_finishedOn_witness:
  "listNotifications ex_getJobs ''SCHOOL_ADMIN'' ''admin'' None = Inr (map job_item ex_jobs) \<and>
   job_failedReason ex_failed_job = Some ''FCM send failed: 401 Unauthorized'' \<and>
   item_failedReason (job_item ex_failed_job) = Some ''FCM send failed: 401 Unauthorized'' \<and>
   item_finishedOn (job_item ex_failed_job) = Some 1700000005000 \<and>
   item_state (job_item ex_failed_job) = ''completed''"
proof -
  have m: "job_item ex_failed_job \<in> set (map job_item ex_jobs)"
    by (simp add: ex_jobs_def)
  have f: "item_finishedOn (job_item ex_failed_job) = Some 1700000005000"
    by (simp add: job_item_def ex_failed_job_def ex_job_def)
  have r: "job_failedReason ex_failed_job = Some ''FCM send failed: 401 Unauthorized''"
    "item_failedReason (job_item ex_failed_job) = Some ''FCM send failed: 401 Unauthorized''"
    by (simp_all add: job_item_def ex_failed_job_def ex_job_def truthy_str_def)
  from listNotifications_state_from_finishedOn [OF ex_admin_list m]
  have "item_state (job_item ex_failed_job) =
          (case item_finishedOn (job_item ex_failed_job) of
             None \<Rightarrow> ''failed''
           | Some t \<Rightarrow> if t = 0 then ''failed'' else ''completed'')"
    by blast
  with f have "item_state (job_item ex_failed_job) = ''completed''" by simp
  with ex_admin_list f r show ?thesis by simp
qed

section \<open>The delivery worker\<close>

lemma getDeviceTokens_rows:
  assumes "getDeviceTokensForUsers db uids = Inr rows"
  shows "rows = filter (\<lambda>t. dt_userId t \<in> set uids \<and> dt_isActive t) (deviceTokens db)"
  using assms by (simp add: getDeviceTokensForUsers_def findMany_def split: option.splits)

lemma getDeviceTokens_answer:
  assumes "db_fault db = None"
  shows "getDeviceTokensForUsers db uids =
           Inr (filter (\<lambda>t. dt_userId t \<in> set uids \<and> dt_isActive t) (deviceTokens db))"
  using assms by (simp add: getDeviceTokensForUsers_def findMany_def)

lemma sendViaOneSignal_calls:
  "c \<in> set (snd (sendViaOneSignal g d tokens)) \<Longrightarrow> call_tokens c = tokens"
  by (auto simp: sendViaOneSignal_def call_tokens_def Let_def split: if_splits option.splits)

lemma sendViaFcm_calls:
  "c \<in> set (snd (sendViaFcm g d tokens)) \<Longrightarrow> call_tokens c = tokens"
  by (auto simp: sendViaFcm_def call_tokens_def Let_def split: if_splits sum.splits)

lemma process_job_calls:
  assumes "getDeviceTokensForUsers db (recipientUserIds d) = Inr rows"
  shows "set (calls (process_job db g d)) \<subseteq>
           set (snd (sendViaOneSignal g d (map dt_token rows))) \<union>
           set (snd (sendViaFcm g d (map dt_token rows)))"
  using assms
  by (auto simp: process_job_def Let_def split: prod.splits sum.splits)

lemma process_job_db_fault:
  assumes "getDeviceTokensForUsers db (recipientUserIds d) = Inl e"
  shows "calls (process_job db g d) = []"
  using assms by (simp add: process_job_def)

text \<open>When FCM throws, the handler records the failure and rethrows: the attempt fails
  with that error, after both outcomes were pushed.\<close>

lemma process_job_fcm_throws:
  assumes "getDeviceTokensForUsers db (recipientUserIds d) = Inr rows" and "rows \<noteq> []"
    and "fst (sendViaFcm g d (map dt_token rows)) = Inl err"
  shows "outcome (process_job db g d) = Inl err \<and>
         length (results (process_job db g d)) = 2 \<and>
         last (results (process_job db g d)) =
           \<lparr>provider = ''fcm'', success = False, reason = err_message err\<rparr>"
  using assms
  by (auto simp: process_job_def Let_def split: prod.splits sum.splits)

text \<open>
  Claim C8. While the database answers: a job none of whose recipients has an active
  device token completes with status ``no-tokens'', with no provider outcome and no request
  to a gateway. The token lookup returns only rows of the table that are active and belong
  to the requested users, and every request the worker sends to a gateway addresses only
  tokens of active rows of the job's recipients.
\<close>

theorem worker_targets_active_tokens_only:
  "(db_fault db = None \<and>
    (\<forall>t \<in> set (deviceTokens db). dt_userId t \<in> set (recipientUserIds d) \<longrightarrow> \<not> dt_isActive t)
      \<longrightarrow> process_job db g d = \<lparr>outcome = Inr NoTokens, results = [], calls = []\<rparr>) \<and>
   (getDeviceTokensForUsers db uids = Inr rows
      \<longrightarrow> (\<forall>r \<in> set rows. r \<in> set (deviceTokens db) \<and> dt_isActive r \<and> dt_userId r \<in> set uids)) \<and>
   (\<forall>c \<in> set (calls (process_job db g d)).
      set (call_tokens c) \<subseteq> active_tokens_of db (recipientUserIds d))"
proof (intro conjI impI ballI)
  assume a: "db_fault db = None \<and>
    (\<forall>t \<in> set (deviceTokens db). dt_userId t \<in> set (recipientUserIds d) \<longrightarrow> \<not> dt_isActive t)"
  then have "filter (\<lambda>t. dt_userId t \<in> set (recipientUserIds d) \<and> dt_isActive t)
               (deviceTokens db) = []"
    by (auto simp: filter_empty_conv)
  with a getDeviceTokens_answer [of db "recipientUserIds d"]
  have "getDeviceTokensForUsers db (recipientUserIds d) = Inr []" by simp
  then show "process_job db g d = \<lparr>outcome = Inr NoTokens, results = [], calls = []\<rparr>"
    by (simp add: process_job_def)
next
  fix r
  assume "getDeviceTokensForUsers db uids = Inr rows" and "r \<in> set rows"
  with getDeviceTokens_rows [of db uids rows]
  have "r \<in> set (filter (\<lambda>t. dt_userId t \<in> set uids \<and> dt_isActive t) (deviceTokens db))"
    by simp
  then show "r \<in> set (deviceTokens db)" "dt_isActive r" "dt_userId r \<in> set uids"
    by simp_all
next
  fix c
  assume c: "c \<in> set (calls (process_job db g d))"
  show "set (call_tokens c) \<subseteq> active_tokens_of db (recipientUserIds d)"
  proof (cases "getDeviceTokensForUsers db (recipientUserIds d)")
    case (Inl e)
    from c process_job_db_fault [OF Inl, of g] show ?thesis by simp
  next
    case (Inr rows)
    from c process_job_calls [OF Inr, of g]
    have "call_tokens c = map dt_token rows"
      using sendViaOneSignal_calls sendViaFcm_calls by blast
    moreover from getDeviceTokens_rows [OF Inr]
    have "set (map dt_token rows) \<subseteq> active_tokens_of db (recipientUserIds d)"
      by (auto simp: active_tokens_of_def)
    ultimately show ?thesis by simp
  qed
qed

lemma ex_job_p1:
  "process_job ex_db ex_gateways (ex_data [''p1'', ''p2'']) =
     \<lparr>outcome =
        Inr (Sent [\<lparr>provider = ''onesignal'', success = False,
                    reason = Some ''429 Too Many Requests''\<rparr>,
                   \<lparr>provider = ''fcm'', success = True, reason = None\<rparr>]),
      results =
        [\<lparr>provider = ''onesignal'', success = False, reason = Some ''429 Too Many Requests''\<rparr>,
         \<lparr>provider = ''fcm'', success = True, reason = None\<rparr>],
      calls =
        [OneSignalCall \<lparr>os_contents = ''Tomorrow 5pm'', os_headings = ''Meeting'',
                        os_include_player_ids = [''tok-p1''], os_data = None\<rparr>,
         FcmCall \<lparr>fcm_url = ''https://fcm.googleapis.com/fcm/send'',
                  fcm_authorization = ''key=srv'', fcm_registration_ids = [''tok-p1''],
                  fcm_notification_title = ''Meeting'',
                  fcm_notification_body = ''Tomorrow 5pm'', fcm_data = None\<rparr>]\<rparr>"
  by (simp add: process_job_def getDeviceTokensForUsers_def findMany_def ex_db_def
        ex_gateways_def ex_data_def sendViaOneSignal_def sendViaFcm_def truthy_str_def
        or_str_def new_Error_def Let_def)

text \<open>\<open>p2\<close> has an inactive token only, so a job for \<open>p2\<close> ends with ``no-tokens''; a
  job for \<open>p1\<close> and \<open>p2\<close> addresses the token of \<open>p1\<close> alone.\<close>

theorem worker_targets_active_tokens_only_witness:
  "process_job ex_db ex_gateways (ex_data [''p2'']) =
     \<lparr>outcome = Inr NoTokens, results = [], calls = []\<rparr> \<and>
   getDeviceTokensForUsers ex_db [''p1'', ''p2''] =
     Inr [\<lparr>dt_userId = ''p1'', dt_token = ''tok-p1'', dt_platform = ANDROID,
           dt_isActive = True, dt_lastUsedAt = Some 1000\<rparr>] \<and>
   map call_tokens (calls (process_job ex_db ex_gateways (ex_data [''p1'', ''p2'']))) =
     [[''tok-p1''], [''tok-p1'']] \<and>
   active_tokens_of ex_db [''p1'', ''p2''] = {''tok-p1''}"
proof -
  have h: "db_fault ex_db = None \<and>
    (\<forall>t \<in> set (deviceTokens ex_db).
       dt_userId t \<in> set (recipientUserIds (ex_data [''p2''])) \<longrightarrow> \<not> dt_isActive t)"
    by (simp add: ex_db_def ex_data_def)
  have l: "getDeviceTokensForUsers ex_db [''p1'', ''p2''] =
     Inr [\<lparr>dt_userId = ''p1'', dt_token = ''tok-p1'', dt_platform = ANDROID,
           dt_isActive = True, dt_lastUsedAt = Some 1000\<rparr>]"
    by (simp add: getDeviceTokensForUsers_def findMany_def ex_db_def)
  have c: "map call_tokens (calls (process_job ex_db ex_gateways (ex_data [''p1'', ''p2'']))) =
     [[''tok-p1''], [''tok-p1'']]"
    by (simp add: ex_job_p1 call_tokens_def)
  have t: "active_tokens_of ex_db [''p1'', ''p2''] = {''tok-p1''}"
    by (simp add: active_tokens_of_def ex_db_def)
  from worker_targets_active_tokens_only [of ex_db "ex_data [''p2'']" ex_gateways] h
  have "process_job ex_db ex_gateways (ex_data [''p2'']) =
     \<lparr>outcome = Inr NoTokens, results = [], calls = []\<rparr>"
    by blast
  with l c t show ?thesis by simp
qed

text \<open>
  Claim C2, evaluated on the code. The job has one active token and both gateways are
  configured; the OneSignal call throws, the FCM call succeeds. The handler records the
  OneSignal failure and returns \<^verbatim>\<open>{ status: 'sent', results }\<close>: the job completes and
  is not retried. Only an error of the FCM call is rethrown.
\<close>

theorem onesignal_throw_completes_job:
  "createNotification ex_gateways
     \<lparr>os_contents = ''Tomorrow 5pm'', os_headings = ''Meeting'',
      os_include_player_ids = [''tok-p1''], os_data = None\<rparr> =
     Some (new_Error ''429 Too Many Requests'') \<and>
   outcome (process_job ex_db ex_gateways (ex_data [''p1''])) =
     Inr (Sent [\<lparr>provider = ''onesignal'', success = False,
                 reason = Some ''429 Too Many Requests''\<rparr>,
                \<lparr>provider = ''fcm'', success = True, reason = None\<rparr>])"
  by (simp add: process_job_def getDeviceTokensForUsers_def findMany_def ex_db_def
        ex_gateways_def ex_data_def sendViaOneSignal_def sendViaFcm_def truthy_str_def
        or_str_def new_Error_def Let_def)

end
